theory Spec2Isabelle
  imports Main
begin

section \<open>Python values, exceptions and the backend clients\<close>

text \<open>
  The services of \<^verbatim>\<open>cloudbridge/providers/openstack/services.py\<close> forward their
  arguments to the vendor clients \<^verbatim>\<open>provider.nova\<close> and \<^verbatim>\<open>provider.cinder\<close> and wrap
  what comes back. The arguments are dynamically typed: a parameter may hold a domain
  object, a bare identifier string, \<^verbatim>\<open>None\<close>, a list. They are values of one datatype.
\<close>

text \<open>
  A vendor record (a novaclient or cinderclient resource) with the attributes this
  module reads from it: \<^verbatim>\<open>id\<close>, \<^verbatim>\<open>name\<close>, \<^verbatim>\<open>description\<close>.
\<close>

record os_resource =
  os_id :: string
  os_name :: string
  os_description :: string

text \<open>
  Modelled from the spec: the classes of \<^verbatim>\<open>resources.py\<close>, \<^verbatim>\<open>base.py\<close> and
  \<^verbatim>\<open>interfaces.py\<close> are not part of the sources at hand. The value objects are
  "wrappers that normalize a vendor-specific record" and "read-through projections of
  vendor records", so every \<^verbatim>\<open>OpenStackX(provider, record)\<close> is the constructor applied
  to the wrapped record (the provider context is shared and left out);
  \<^verbatim>\<open>BaseKeyPair(name)\<close> and \<^verbatim>\<open>BaseSecurityGroup(id, name, description)\<close> hold their
  constructor arguments; \<^verbatim>\<open>PlacementZone\<close> is an interface with no constructor in this
  module, an object of it holds its name.
\<close>

datatype pyval =
    PNone
  | PBool bool
  | PInt int
  | PStr string
  | PList "pyval list"
  | Resource os_resource
  | OpenStackMachineImage pyval
  | OpenStackInstanceType pyval
  | OpenStackVolume pyval
  | OpenStackSnapshot pyval
  | OpenStackInstance pyval
  | OpenStackRegion pyval
  | BaseKeyPair pyval
  | BaseSecurityGroup pyval pyval pyval
  | PlacementZone pyval

datatype exn =
    NovaNotFound
  | CinderNotFound
  | NotImplementedError string
  | AttributeError
  | IndexError
  | BackendError string

text \<open>Python truthiness (\<^verbatim>\<open>if sg:\<close>): objects without \<^verbatim>\<open>__bool__\<close> are true.\<close>

fun truthy :: "pyval \<Rightarrow> bool" where
  "truthy PNone = False"
| "truthy (PBool b) = b"
| "truthy (PInt i) = (i \<noteq> 0)"
| "truthy (PStr s) = (s \<noteq> [])"
| "truthy (PList xs) = (xs \<noteq> [])"
| "truthy _ = True"

text \<open>The classes that the module tests with \<^verbatim>\<open>isinstance\<close>.\<close>

datatype cls =
    C_MachineImage
  | C_InstanceType
  | C_PlacementZone
  | C_KeyPair
  | C_SecurityGroup
  | C_OpenStackVolume
  | C_OpenStackSnapshot
  | C_list

text \<open>
  Modelled from the spec: the class hierarchy is declared in the absent
  \<^verbatim>\<open>resources.py\<close> and \<^verbatim>\<open>base.py\<close>; each concrete class implements the interface
  of its resource kind.
\<close>

definition isinstance :: "pyval \<Rightarrow> cls \<Rightarrow> bool" where
  "isinstance v c =
     (case c of
        C_MachineImage \<Rightarrow> (case v of OpenStackMachineImage _ \<Rightarrow> True | _ \<Rightarrow> False)
      | C_InstanceType \<Rightarrow> (case v of OpenStackInstanceType _ \<Rightarrow> True | _ \<Rightarrow> False)
      | C_PlacementZone \<Rightarrow> (case v of PlacementZone _ \<Rightarrow> True | _ \<Rightarrow> False)
      | C_KeyPair \<Rightarrow> (case v of BaseKeyPair _ \<Rightarrow> True | _ \<Rightarrow> False)
      | C_SecurityGroup \<Rightarrow> (case v of BaseSecurityGroup _ _ _ \<Rightarrow> True | _ \<Rightarrow> False)
      | C_OpenStackVolume \<Rightarrow> (case v of OpenStackVolume _ \<Rightarrow> True | _ \<Rightarrow> False)
      | C_OpenStackSnapshot \<Rightarrow> (case v of OpenStackSnapshot _ \<Rightarrow> True | _ \<Rightarrow> False)
      | C_list \<Rightarrow> (case v of PList _ \<Rightarrow> True | _ \<Rightarrow> False))"

text \<open>The attributes that the module reads.\<close>

datatype attr =
    A_id
  | A_name
  | A_description
  | A_image_id
  | A_volume_id
  | A_snapshot_id

text \<open>
  Modelled from the spec: the properties of the value objects are declared in the absent
  \<^verbatim>\<open>resources.py\<close>; the identifier field of a wrapper is the \<^verbatim>\<open>id\<close> of the record it
  projects, the name of an instance type is the name of its flavor. Reading an attribute
  that an object does not have raises \<^verbatim>\<open>AttributeError\<close>, as on \<^verbatim>\<open>None\<close> or a string.
  Only the attributes that this module reads are modelled: the properties of an instance
  or a region are read nowhere in it.
\<close>

primrec getattr :: "pyval \<Rightarrow> attr \<Rightarrow> exn + pyval" where
  "getattr PNone a = Inl AttributeError"
| "getattr (PBool b) a = Inl AttributeError"
| "getattr (PInt i) a = Inl AttributeError"
| "getattr (PStr s) a = Inl AttributeError"
| "getattr (PList xs) a = Inl AttributeError"
| "getattr (Resource r) a =
     (case a of
        A_id \<Rightarrow> Inr (PStr (os_id r))
      | A_name \<Rightarrow> Inr (PStr (os_name r))
      | A_description \<Rightarrow> Inr (PStr (os_description r))
      | _ \<Rightarrow> Inl AttributeError)"
| "getattr (OpenStackMachineImage r) a =
     (case a of A_image_id \<Rightarrow> getattr r A_id | _ \<Rightarrow> Inl AttributeError)"
| "getattr (OpenStackInstanceType r) a =
     (case a of
        A_id \<Rightarrow> getattr r A_id
      | A_name \<Rightarrow> getattr r A_name
      | _ \<Rightarrow> Inl AttributeError)"
| "getattr (OpenStackVolume r) a =
     (case a of A_volume_id \<Rightarrow> getattr r A_id | _ \<Rightarrow> Inl AttributeError)"
| "getattr (OpenStackSnapshot r) a =
     (case a of A_snapshot_id \<Rightarrow> getattr r A_id | _ \<Rightarrow> Inl AttributeError)"
| "getattr (OpenStackInstance r) a = Inl AttributeError"
| "getattr (OpenStackRegion r) a = Inl AttributeError"
| "getattr (BaseKeyPair n) a =
     (case a of A_name \<Rightarrow> Inr n | _ \<Rightarrow> Inl AttributeError)"
| "getattr (BaseSecurityGroup i n d) a =
     (case a of
        A_id \<Rightarrow> Inr i
      | A_name \<Rightarrow> Inr n
      | A_description \<Rightarrow> Inr d
      | _ \<Rightarrow> Inl AttributeError)"
| "getattr (PlacementZone n) a =
     (case a of A_name \<Rightarrow> Inr n | _ \<Rightarrow> Inl AttributeError)"

subsection \<open>Requests and the vendor clients\<close>

text \<open>The payload of \<^verbatim>\<open>nova.servers.create\<close>, positional and keyword arguments.\<close>

record server_request =
  srv_name :: pyval
  srv_image :: pyval
  srv_flavor :: pyval
  srv_min_count :: int
  srv_max_count :: int
  srv_availability_zone :: pyval
  srv_key_name :: pyval
  srv_security_groups :: pyval
  srv_userdata :: pyval

text \<open>The payload of \<^verbatim>\<open>cinder.volumes.create\<close>.\<close>

record volume_request =
  vol_size :: pyval
  vol_name :: pyval
  vol_availability_zone :: pyval
  vol_snapshot_id :: pyval

text \<open>The payload of \<^verbatim>\<open>cinder.volume_snapshots.create\<close>.\<close>

record snapshot_request =
  snap_volume_id :: pyval
  snap_name :: pyval
  snap_description :: pyval

text \<open>
  The vendor clients are external collaborators: each method is a parameter that gives
  the outcome of the call, an exception (\<open>Inl\<close>) or the returned value. A listing returns
  vendor records; a \<^verbatim>\<open>get\<close> or \<^verbatim>\<open>create\<close> returns any value, since the module itself
  tests what it got (\<^verbatim>\<open>if sg:\<close>).
\<close>

record nova_client =
  keypairs_list :: "exn + os_resource list"
  security_groups_list :: "exn + os_resource list"
  security_groups_create :: "pyval \<Rightarrow> pyval \<Rightarrow> exn + pyval"
  security_groups_get :: "pyval \<Rightarrow> exn + pyval"
  images_get :: "pyval \<Rightarrow> exn + pyval"
  images_list :: "exn + os_resource list"
  flavors_list :: "exn + os_resource list"
  servers_create :: "server_request \<Rightarrow> exn + pyval"
  servers_list :: "exn + os_resource list"
  servers_get :: "pyval \<Rightarrow> exn + pyval"
  availability_zones_list :: "bool \<Rightarrow> exn + os_resource list"

record cinder_client =
  volumes_get :: "pyval \<Rightarrow> exn + pyval"
  volumes_list :: "exn + os_resource list"
  volumes_create :: "volume_request \<Rightarrow> exn + pyval"
  volume_snapshots_get :: "pyval \<Rightarrow> exn + pyval"
  volume_snapshots_list :: "exn + os_resource list"
  volume_snapshots_create :: "snapshot_request \<Rightarrow> exn + pyval"

record provider =
  nova :: nova_client
  cinder :: cinder_client

text \<open>The backend calls a service issues, in order, with their arguments.\<close>

datatype call =
    KeypairsList
  | SecurityGroupsList
  | SecurityGroupsCreate pyval pyval
  | SecurityGroupsGet pyval
  | ImagesGet pyval
  | ImagesList
  | FlavorsList
  | ServersCreate server_request
  | ServersList
  | ServersGet pyval
  | AvailabilityZonesList bool
  | VolumesGet pyval
  | VolumesList
  | VolumesCreate volume_request
  | VolumeSnapshotsGet pyval
  | VolumeSnapshotsList
  | VolumeSnapshotsCreate snapshot_request

subsection \<open>Service computations\<close>

text \<open>
  A service method yields the backend calls it issued and its outcome: the exception it
  raised to the caller or the value it returned.
\<close>

type_synonym 'a svc = "call list \<times> (exn + 'a)"

definition svc_return :: "'a \<Rightarrow> 'a svc" where
  "svc_return x = ([], Inr x)"

definition svc_raise :: "exn \<Rightarrow> 'a svc" where
  "svc_raise e = ([], Inl e)"

definition svc_lift :: "exn + 'a \<Rightarrow> 'a svc" where
  "svc_lift r = ([], r)"

definition backend :: "call \<Rightarrow> exn + 'a \<Rightarrow> 'a svc" where
  "backend c r = ([c], r)"

definition svc_bind :: "'a svc \<Rightarrow> ('a \<Rightarrow> 'b svc) \<Rightarrow> 'b svc" where
  "svc_bind m f =
     (case m of
        (cs, Inl e) \<Rightarrow> (cs, Inl e)
      | (cs, Inr x) \<Rightarrow> (case f x of (cs', r) \<Rightarrow> (cs @ cs', r)))"

text \<open>\<^verbatim>\<open>try: m except E: return v\<close>: only the named exception is caught.\<close>

definition try_except :: "'a svc \<Rightarrow> exn \<Rightarrow> 'a \<Rightarrow> 'a svc" where
  "try_except m e v =
     (case m of
        (cs, Inl e') \<Rightarrow> if e' = e then (cs, Inr v) else (cs, Inl e')
      | (cs, Inr x) \<Rightarrow> (cs, Inr x))"

section \<open>The services\<close>

subsection \<open>OpenStackImageService, OpenStackVolumeService and OpenStackSnapshotService: find\<close>

definition find_image :: "provider \<Rightarrow> pyval \<Rightarrow> pyval svc" where
  "find_image p name =
     svc_raise (NotImplementedError ''find_image not implemented by this provider'')"

definition find_volume :: "provider \<Rightarrow> pyval \<Rightarrow> pyval svc" where
  "find_volume p name =
     svc_raise (NotImplementedError ''find_volume not implemented by this provider'')"

definition find_snapshot :: "provider \<Rightarrow> pyval \<Rightarrow> pyval svc" where
  "find_snapshot p name =
     svc_raise (NotImplementedError ''find_volume not implemented by this provider'')"

subsection \<open>OpenStackComputeService.list_regions\<close>

definition list_regions :: "provider \<Rightarrow> pyval list svc" where
  "list_regions p =
     svc_bind (backend (AvailabilityZonesList False) (availability_zones_list (nova p) False))
       (\<lambda>regions. svc_return (map (\<lambda>region. OpenStackRegion (Resource region)) regions))"

subsection \<open>OpenStackKeyPairService\<close>

definition KeyPairService_list :: "provider \<Rightarrow> pyval list svc" where
  "KeyPairService_list p =
     svc_bind (backend KeypairsList (keypairs_list (nova p)))
       (\<lambda>key_pairs. svc_return (map (\<lambda>kp. BaseKeyPair (PStr (os_id kp))) key_pairs))"

subsection \<open>OpenStackSecurityGroupService\<close>

definition SecurityGroupService_list :: "provider \<Rightarrow> pyval list svc" where
  "SecurityGroupService_list p =
     svc_bind (backend SecurityGroupsList (security_groups_list (nova p)))
       (\<lambda>groups. svc_return
          (map (\<lambda>group. BaseSecurityGroup (PStr (os_id group)) (PStr (os_name group))
                  (PStr (os_description group))) groups))"

definition SecurityGroupService_create :: "provider \<Rightarrow> pyval \<Rightarrow> pyval \<Rightarrow> pyval svc" where
  "SecurityGroupService_create p name description =
     svc_bind (backend (SecurityGroupsCreate name description)
                 (security_groups_create (nova p) name description))
       (\<lambda>sg. if truthy sg
             then svc_bind (svc_lift (getattr sg A_id))
                    (\<lambda>sg_id. svc_return (BaseSecurityGroup sg_id name description))
             else svc_return PNone)"

definition SecurityGroupService_get :: "provider \<Rightarrow> pyval \<Rightarrow> pyval svc" where
  "SecurityGroupService_get p group_id =
     svc_bind (backend (SecurityGroupsGet group_id) (security_groups_get (nova p) group_id))
       (\<lambda>sg. if truthy sg
             then svc_bind (svc_lift (getattr sg A_id)) (\<lambda>sg_id.
                  svc_bind (svc_lift (getattr sg A_name)) (\<lambda>sg_name.
                  svc_bind (svc_lift (getattr sg A_description)) (\<lambda>sg_description.
                  svc_return (BaseSecurityGroup sg_id sg_name sg_description))))
             else svc_return PNone)"

subsection \<open>OpenStackImageService\<close>

definition get_image :: "provider \<Rightarrow> pyval \<Rightarrow> pyval svc" where
  "get_image p image_id =
     try_except
       (svc_bind (backend (ImagesGet image_id) (images_get (nova p) image_id))
          (\<lambda>os_image. svc_return (OpenStackMachineImage os_image)))
       NovaNotFound PNone"

definition list_images :: "provider \<Rightarrow> pyval list svc" where
  "list_images p =
     svc_bind (backend ImagesList (images_list (nova p)))
       (\<lambda>images. svc_return (map (\<lambda>image. OpenStackMachineImage (Resource image)) images))"

subsection \<open>OpenStackInstanceTypesService\<close>

definition InstanceTypesService_list :: "provider \<Rightarrow> pyval list svc" where
  "InstanceTypesService_list p =
     svc_bind (backend FlavorsList (flavors_list (nova p)))
       (\<lambda>flavors. svc_return (map (\<lambda>f. OpenStackInstanceType (Resource f)) flavors))"

text \<open>
  \<^verbatim>\<open>next((itype for itype in itypes if itype.name == name), None)\<close>: the generator is
  consumed up to its first element that passes the test, so the names of the later
  elements are never read.
\<close>

fun next_match :: "pyval list \<Rightarrow> pyval \<Rightarrow> exn + pyval" where
  "next_match [] name = Inr PNone"
| "next_match (itype # itypes) name =
     (case getattr itype A_name of
        Inl e \<Rightarrow> Inl e
      | Inr n \<Rightarrow> if n = name then Inr itype else next_match itypes name)"

definition find_by_name :: "provider \<Rightarrow> pyval \<Rightarrow> pyval svc" where
  "find_by_name p name =
     svc_bind (InstanceTypesService_list p)
       (\<lambda>itypes. svc_lift (next_match itypes name))"

subsection \<open>OpenStackVolumeService\<close>

definition get_volume :: "provider \<Rightarrow> pyval \<Rightarrow> pyval svc" where
  "get_volume p volume_id =
     try_except
       (svc_bind (backend (VolumesGet volume_id) (volumes_get (cinder p) volume_id))
          (\<lambda>os_vol. svc_return (OpenStackVolume os_vol)))
       CinderNotFound PNone"

definition list_volumes :: "provider \<Rightarrow> pyval list svc" where
  "list_volumes p =
     svc_bind (backend VolumesList (volumes_list (cinder p)))
       (\<lambda>vols. svc_return (map (\<lambda>vol. OpenStackVolume (Resource vol)) vols))"

definition create_volume :: "provider \<Rightarrow> pyval \<Rightarrow> pyval \<Rightarrow> pyval \<Rightarrow> pyval \<Rightarrow> pyval svc" where
  "create_volume p name vsize zone snapshot =
     svc_bind (if isinstance zone C_PlacementZone
               then svc_lift (getattr zone A_name) else svc_return zone) (\<lambda>zone_name.
     svc_bind (if isinstance zone C_OpenStackSnapshot \<and> truthy snapshot
               then svc_lift (getattr snapshot A_snapshot_id)
               else svc_return snapshot) (\<lambda>snapshot_id.
     svc_bind (let req = \<lparr>vol_size = vsize, vol_name = name,
                          vol_availability_zone = zone_name,
                          vol_snapshot_id = snapshot_id\<rparr>
               in backend (VolumesCreate req) (volumes_create (cinder p) req)) (\<lambda>os_vol.
     svc_return (OpenStackVolume os_vol))))"

subsection \<open>OpenStackSnapshotService\<close>

definition get_snapshot :: "provider \<Rightarrow> pyval \<Rightarrow> pyval svc" where
  "get_snapshot p snapshot_id =
     try_except
       (svc_bind (backend (VolumeSnapshotsGet snapshot_id)
                    (volume_snapshots_get (cinder p) snapshot_id))
          (\<lambda>os_snap. svc_return (OpenStackSnapshot os_snap)))
       CinderNotFound PNone"

definition list_snapshots :: "provider \<Rightarrow> pyval list svc" where
  "list_snapshots p =
     svc_bind (backend VolumeSnapshotsList (volume_snapshots_list (cinder p)))
       (\<lambda>snaps. svc_return (map (\<lambda>snap. OpenStackSnapshot (Resource snap)) snaps))"

definition create_snapshot :: "provider \<Rightarrow> pyval \<Rightarrow> pyval \<Rightarrow> pyval \<Rightarrow> pyval svc" where
  "create_snapshot p name volume description =
     svc_bind (if isinstance volume C_OpenStackVolume
               then svc_lift (getattr volume A_volume_id)
               else svc_return volume) (\<lambda>volume_id.
     svc_bind (let req = \<lparr>snap_volume_id = volume_id, snap_name = name,
                          snap_description = description\<rparr>
               in backend (VolumeSnapshotsCreate req)
                    (volume_snapshots_create (cinder p) req)) (\<lambda>os_snap.
     svc_return (OpenStackSnapshot os_snap)))"

subsection \<open>OpenStackComputeService\<close>

text \<open>\<^verbatim>\<open>[sg.name for sg in security_groups]\<close>: the first failing read raises.\<close>

fun attr_of_each :: "attr \<Rightarrow> pyval list \<Rightarrow> exn + pyval list" where
  "attr_of_each a [] = Inr []"
| "attr_of_each a (x # xs) =
     (case getattr x a of
        Inl e \<Rightarrow> Inl e
      | Inr v \<Rightarrow> (case attr_of_each a xs of Inl e \<Rightarrow> Inl e | Inr vs \<Rightarrow> Inr (v # vs)))"

text \<open>
  The five assignments that open \<^verbatim>\<open>create_instance\<close>, one definition for each local
  variable, in the order of the source. An instance type that is not an
  \<^verbatim>\<open>InstanceType\<close> object is looked up by name and the \<^verbatim>\<open>id\<close> of what the lookup
  returned is read. An empty list is false, so \<^verbatim>\<open>security_groups[0]\<close> is read on a
  non-empty list only; the case of the empty list is written out as Python's
  \<^verbatim>\<open>IndexError\<close>.
\<close>

definition create_instance_image_id :: "pyval \<Rightarrow> exn + pyval" where
  "create_instance_image_id img =
     (if isinstance img C_MachineImage then getattr img A_image_id else Inr img)"

definition create_instance_instance_size :: "provider \<Rightarrow> pyval \<Rightarrow> pyval svc" where
  "create_instance_instance_size p instance_type =
     (if isinstance instance_type C_InstanceType
      then svc_lift (getattr instance_type A_name)
      else svc_bind (find_by_name p instance_type) (\<lambda>itype. svc_lift (getattr itype A_id)))"

definition create_instance_zone_name :: "pyval \<Rightarrow> exn + pyval" where
  "create_instance_zone_name zone =
     (if isinstance zone C_PlacementZone then getattr zone A_name else Inr zone)"

definition create_instance_keypair_name :: "pyval \<Rightarrow> exn + pyval" where
  "create_instance_keypair_name keypair =
     (if isinstance keypair C_KeyPair then getattr keypair A_name else Inr keypair)"

definition create_instance_security_groups_list :: "pyval \<Rightarrow> exn + pyval" where
  "create_instance_security_groups_list security_groups =
     (if truthy security_groups
      then (case security_groups of
              PList sgs \<Rightarrow>
                (case sgs of
                   [] \<Rightarrow> Inl IndexError
                 | sg0 # _ \<Rightarrow>
                     if isinstance sg0 C_SecurityGroup
                     then (case attr_of_each A_name sgs of
                             Inl e \<Rightarrow> Inl e
                           | Inr names \<Rightarrow> Inr (PList names))
                     else Inr security_groups)
            | _ \<Rightarrow> Inr security_groups)
      else Inr PNone)"

text \<open>
  The parameters \<^verbatim>\<open>block_device_mapping\<close>, \<^verbatim>\<open>network_interfaces\<close> and \<^verbatim>\<open>**kwargs\<close>
  are accepted and never read. A parameter left out by the caller is \<open>PNone\<close>, its
  default. The parameter \<^verbatim>\<open>image\<close> is \<open>img\<close> here and \<^verbatim>\<open>size\<close> of \<^verbatim>\<open>create_volume\<close> is
  \<open>vsize\<close>, the source's names being constants of HOL.
\<close>

definition create_instance ::
  "provider \<Rightarrow> pyval \<Rightarrow> pyval \<Rightarrow> pyval \<Rightarrow> pyval \<Rightarrow> pyval \<Rightarrow> pyval \<Rightarrow> pyval \<Rightarrow> pyval \<Rightarrow> pyval
     \<Rightarrow> (string \<times> pyval) list \<Rightarrow> pyval svc" where
  "create_instance p name img instance_type zone keypair security_groups user_data
     block_device_mapping network_interfaces kwargs =
     svc_bind (svc_lift (create_instance_image_id img)) (\<lambda>image_id.
     svc_bind (create_instance_instance_size p instance_type) (\<lambda>instance_size.
     svc_bind (svc_lift (create_instance_zone_name zone)) (\<lambda>zone_name.
     svc_bind (svc_lift (create_instance_keypair_name keypair)) (\<lambda>keypair_name.
     svc_bind (svc_lift (create_instance_security_groups_list security_groups))
       (\<lambda>security_groups_list.
     svc_bind (let req = \<lparr>srv_name = name, srv_image = image_id,
                          srv_flavor = instance_size,
                          srv_min_count = 1, srv_max_count = 1,
                          srv_availability_zone = zone_name,
                          srv_key_name = keypair_name,
                          srv_security_groups = security_groups_list,
                          srv_userdata = user_data\<rparr>
               in backend (ServersCreate req) (servers_create (nova p) req)) (\<lambda>os_instance.
     svc_return (OpenStackInstance os_instance)))))))"

definition list_instances :: "provider \<Rightarrow> pyval list svc" where
  "list_instances p =
     svc_bind (backend ServersList (servers_list (nova p)))
       (\<lambda>instances. svc_return
          (map (\<lambda>instance. OpenStackInstance (Resource instance)) instances))"

definition get_instance :: "provider \<Rightarrow> pyval \<Rightarrow> pyval svc" where
  "get_instance p instance_id =
     try_except
       (svc_bind (backend (ServersGet instance_id) (servers_get (nova p) instance_id))
          (\<lambda>os_instance. svc_return (OpenStackInstance os_instance)))
       NovaNotFound PNone"

section \<open>The key-pair helper of the GCE provider\<close>

text \<open>
  \<^verbatim>\<open>generate_key_pair\<close> of \<^verbatim>\<open>cloud/providers/gce/helpers.py\<close> is four calls into the
  \<^verbatim>\<open>cryptography\<close> library. The library is an external collaborator and the key is
  drawn from the system's randomness, so the library is a parameter: what each of its
  functions returns in the run at hand, for the arguments it is given. The key generator
  takes the public exponent and the key size; its third argument, the library's default
  backend, is the same in every call and is left out.
\<close>

datatype encoding = Encoding_PEM | Encoding_DER | Encoding_OpenSSH

datatype private_format =
  PrivateFormat_PKCS8 | PrivateFormat_TraditionalOpenSSL | PrivateFormat_OpenSSH

datatype public_format =
  PublicFormat_SubjectPublicKeyInfo | PublicFormat_PKCS1 | PublicFormat_OpenSSH

datatype key_encryption = NoEncryption | BestAvailableEncryption string

record ('k, 'pk) crypto_library =
  rsa_generate_private_key :: "nat \<Rightarrow> nat \<Rightarrow> 'k"
  private_bytes :: "'k \<Rightarrow> encoding \<Rightarrow> private_format \<Rightarrow> key_encryption \<Rightarrow> string"
  public_key :: "'k \<Rightarrow> 'pk"
  public_bytes :: "'pk \<Rightarrow> encoding \<Rightarrow> public_format \<Rightarrow> string"

text \<open>The library calls, in order: public exponent and key size, then the encodings.\<close>

datatype crypto_call =
    GeneratePrivateKey nat nat
  | PrivateBytes encoding private_format key_encryption
  | PublicKey
  | PublicBytes encoding public_format

definition generate_key_pair ::
  "('k, 'pk) crypto_library \<Rightarrow> crypto_call list \<times> (string \<times> string)" where
  "generate_key_pair lib =
     (let key_pair = rsa_generate_private_key lib 65537 2048;
          private_key = private_bytes lib key_pair
                          Encoding_PEM PrivateFormat_PKCS8 NoEncryption;
          public_key' = public_bytes lib (public_key lib key_pair)
                          Encoding_OpenSSH PublicFormat_OpenSSH
      in ([GeneratePrivateKey 65537 2048,
           PrivateBytes Encoding_PEM PrivateFormat_PKCS8 NoEncryption,
           PublicKey,
           PublicBytes Encoding_OpenSSH PublicFormat_OpenSSH],
          (private_key, public_key')))"

section \<open>A concrete backend\<close>

text \<open>
  A small cloud to run the services on: three flavors, two of them under one name, no image, volume, snapshot, server or
  security group (every \<^verbatim>\<open>get\<close> raises the client's \<^verbatim>\<open>NotFound\<close>), a compute client that
  creates servers, and \<^verbatim>\<open>create\<close> calls for security groups, volumes and snapshots that
  return \<^verbatim>\<open>None\<close>. The detailed listing of availability zones is refused.
\<close>

definition m1_small :: os_resource where
  "m1_small = \<lparr>os_id = ''2'', os_name = ''m1.small'', os_description = ''''\<rparr>"

definition m1_tiny :: os_resource where
  "m1_tiny = \<lparr>os_id = ''1'', os_name = ''m1.tiny'', os_description = ''''\<rparr>"

definition m1_small_again :: os_resource where
  "m1_small_again = \<lparr>os_id = ''7'', os_name = ''m1.small'', os_description = ''''\<rparr>"

definition example_nova :: nova_client where
  "example_nova =
     \<lparr>keypairs_list = Inr [],
      security_groups_list = Inr [],
      security_groups_create = (\<lambda>name description. Inr PNone),
      security_groups_get = (\<lambda>group_id. Inl NovaNotFound),
      images_get = (\<lambda>image_id. Inl NovaNotFound),
      images_list = Inr [],
      flavors_list = Inr [m1_tiny, m1_small, m1_small_again],
      servers_create = (\<lambda>req. Inr (Resource
         \<lparr>os_id = ''srv-1'', os_name = ''web'', os_description = ''''\<rparr>)),
      servers_list = Inr [],
      servers_get = (\<lambda>instance_id. Inl NovaNotFound),
      availability_zones_list = (\<lambda>detailed.
         if detailed then Inl (BackendError ''Forbidden'')
         else Inr [\<lparr>os_id = ''nova'', os_name = ''nova'', os_description = ''''\<rparr>])\<rparr>"

definition example_cinder :: cinder_client where
  "example_cinder =
     \<lparr>volumes_get = (\<lambda>volume_id. Inl CinderNotFound),
      volumes_list = Inr [],
      volumes_create = (\<lambda>req. Inr PNone),
      volume_snapshots_get = (\<lambda>snapshot_id. Inl CinderNotFound),
      volume_snapshots_list = Inr [],
      volume_snapshots_create = (\<lambda>req. Inr PNone)\<rparr>"

definition example_provider :: provider where
  "example_provider = \<lparr>nova = example_nova, cinder = example_cinder\<rparr>"

text \<open>Domain objects to pass to the services, each with its bare identifier.\<close>

definition example_image :: pyval where
  "example_image = OpenStackMachineImage
     (Resource \<lparr>os_id = ''img-1'', os_name = ''ubuntu'', os_description = ''''\<rparr>)"

definition example_zone :: pyval where
  "example_zone = PlacementZone (PStr ''nova'')"

definition example_keypair :: pyval where
  "example_keypair = BaseKeyPair (PStr ''deploy-key'')"

definition example_volume :: pyval where
  "example_volume = OpenStackVolume
     (Resource \<lparr>os_id = ''vol-1'', os_name = ''data'', os_description = ''''\<rparr>)"

definition example_snapshot :: pyval where
  "example_snapshot = OpenStackSnapshot
     (Resource \<lparr>os_id = ''snap-1'', os_name = ''nightly'', os_description = ''''\<rparr>)"

definition example_security_groups :: "pyval list" where
  "example_security_groups =
     [BaseSecurityGroup (PStr ''11'') (PStr ''default'') (PStr ''default group''),
      BaseSecurityGroup (PStr ''12'') (PStr ''web'') (PStr ''http and https'')]"

section \<open>Properties\<close>

lemmas svc_defs = svc_return_def svc_raise_def svc_lift_def backend_def svc_bind_def
  try_except_def

lemmas example_defs = example_provider_def example_nova_def example_cinder_def
  m1_tiny_def m1_small_def m1_small_again_def example_image_def example_zone_def
  example_keypair_def example_volume_def example_snapshot_def example_security_groups_def

lemmas create_instance_defs = create_instance_def create_instance_image_id_def
  create_instance_instance_size_def create_instance_zone_name_def
  create_instance_keypair_name_def create_instance_security_groups_list_def
  find_by_name_def InstanceTypesService_list_def

subsection \<open>Sequencing and resolution\<close>

lemma svc_bind_InrE:
  assumes "svc_bind m f = (cs, Inr y)"
  obtains cs1 x cs2 where "m = (cs1, Inr x)" and "f x = (cs2, Inr y)" and "cs = cs1 @ cs2"
proof (cases m)
  case (Pair cs1 r)
  show ?thesis
  proof (cases r)
    case (Inl e)
    with Pair assms show ?thesis by (simp add: svc_bind_def)
  next
    case (Inr x)
    obtain cs2 r2 where fx: "f x = (cs2, r2)" by (cases "f x")
    with Pair Inr assms have "cs = cs1 @ cs2" and "r2 = Inr y"
      by (simp_all add: svc_bind_def)
    with Pair Inr fx that show ?thesis by simp
  qed
qed

lemma resolve_no_call:
  "(if b then svc_lift r else svc_return v) = (cs, Inr x) \<Longrightarrow> cs = []"
  by (simp add: svc_lift_def svc_return_def split: if_splits)

lemma isinstance_PStr: "isinstance (PStr s) c = False"
  by (simp add: isinstance_def split: cls.splits)

lemma PlacementZone_not_snapshot:
  "isinstance zone C_PlacementZone \<Longrightarrow> \<not> isinstance zone C_OpenStackSnapshot"
  by (cases zone) (simp_all add: isinstance_def)

subsection \<open>Get by identifier\<close>

text \<open>
  The four services that wrap the backend \<^verbatim>\<open>get\<close> in \<^verbatim>\<open>try ... except NotFound\<close>
  return \<^verbatim>\<open>None\<close> when the backend raises the \<^verbatim>\<open>NotFound\<close> of their client.
\<close>

lemma get_by_id_not_found:
  "(images_get (nova p) i = Inl NovaNotFound \<longrightarrow> get_image p i = ([ImagesGet i], Inr PNone))
   \<and> (volumes_get (cinder p) i = Inl CinderNotFound
        \<longrightarrow> get_volume p i = ([VolumesGet i], Inr PNone))
   \<and> (volume_snapshots_get (cinder p) i = Inl CinderNotFound
        \<longrightarrow> get_snapshot p i = ([VolumeSnapshotsGet i], Inr PNone))
   \<and> (servers_get (nova p) i = Inl NovaNotFound
        \<longrightarrow> get_instance p i = ([ServersGet i], Inr PNone))"
  by (simp add: get_image_def get_volume_def get_snapshot_def get_instance_def svc_defs)

text \<open>
  \<^verbatim>\<open>OpenStackSecurityGroupService.get\<close> has no handler: whatever the backend raises
  reaches the caller.
\<close>

lemma SecurityGroupService_get_propagates:
  "security_groups_get (nova p) i = Inl e \<Longrightarrow>
   SecurityGroupService_get p i = ([SecurityGroupsGet i], Inl e)"
  by (simp add: SecurityGroupService_get_def svc_defs)

text \<open>
  C1: every get-by-id operation (security groups, images, volumes, snapshots, instances)
  returns \<^verbatim>\<open>None\<close> for an identifier that the backend reports as not found, and raises
  no not-found exception. The security-group service breaks it: in the example cloud the
  compute client raises \<^verbatim>\<open>NovaNotFound\<close> for every group identifier, and
  \<^verbatim>\<open>get('sg-404')\<close> raises that exception to the caller, where \<^verbatim>\<open>get_image\<close>
  and \<^verbatim>\<open>get_instance\<close> on the same client return \<^verbatim>\<open>None\<close>.
\<close>

theorem SecurityGroupService_get_not_found_raises:
  "security_groups_get (nova example_provider) (PStr ''sg-404'') = Inl NovaNotFound
   \<and> SecurityGroupService_get example_provider (PStr ''sg-404'')
       = ([SecurityGroupsGet (PStr ''sg-404'')], Inl NovaNotFound)
   \<and> get_image example_provider (PStr ''img-404'')
       = ([ImagesGet (PStr ''img-404'')], Inr PNone)
   \<and> get_instance example_provider (PStr ''srv-404'')
       = ([ServersGet (PStr ''srv-404'')], Inr PNone)"
  by (simp add: SecurityGroupService_get_def get_image_def get_instance_def svc_defs
      example_defs)

subsection \<open>Volumes from snapshots\<close>

text \<open>
  When the zone is neither a placement zone nor a snapshot object, the snapshot argument
  reaches the backend as it was given.
\<close>

lemma create_volume_snapshot_payload:
  "\<not> isinstance zone C_OpenStackSnapshot \<Longrightarrow> \<not> isinstance zone C_PlacementZone \<Longrightarrow>
   fst (create_volume p name vsize zone snapshot)
     = [VolumesCreate \<lparr>vol_size = vsize, vol_name = name, vol_availability_zone = zone,
                        vol_snapshot_id = snapshot\<rparr>]"
  by (simp add: create_volume_def svc_defs Let_def split: sum.splits)

text \<open>
  C2: \<^verbatim>\<open>create_volume\<close> with a snapshot object passes the snapshot's identifier string
  to the backend as \<^verbatim>\<open>snapshot_id\<close>, for any zone. The code tests the class of the
  zone, not of the snapshot: with the zone name \<^verbatim>\<open>'nova'\<close> and the snapshot object of
  identifier \<^verbatim>\<open>'snap-1'\<close>, the backend receives the snapshot object itself.
\<close>

theorem create_volume_snapshot_object_unresolved:
  "getattr example_snapshot A_snapshot_id = Inr (PStr ''snap-1'')
   \<and> create_volume example_provider (PStr ''data'') (PInt 10) (PStr ''nova'') example_snapshot
       = ([VolumesCreate \<lparr>vol_size = PInt 10, vol_name = PStr ''data'',
                           vol_availability_zone = PStr ''nova'',
                           vol_snapshot_id = example_snapshot\<rparr>],
          Inr (OpenStackVolume PNone))
   \<and> example_snapshot \<noteq> PStr ''snap-1''"
  by (simp add: create_volume_def svc_defs example_defs isinstance_def)

subsection \<open>Object or identifier\<close>

text \<open>
  C3, as the specification states it, fails: a create operation called with a domain
  object and called with the object's bare identifier should issue the same backend call
  and return the same result, for every object-or-id parameter. For the instance type of
  \<^verbatim>\<open>create_instance\<close> the object form sends the type's name (\<^verbatim>\<open>'m1.small'\<close>) with no
  lookup; the string form is a name that is looked up in the flavor listing, so
  \<^verbatim>\<open>'m1.small'\<close> issues the listing and sends the identifier \<^verbatim>\<open>'2'\<close>, and the
  identifier \<^verbatim>\<open>'2'\<close> names no type and raises \<^verbatim>\<open>AttributeError\<close>.
\<close>

theorem create_instance_type_object_or_string_differ:
  "create_instance example_provider (PStr ''web'') (PStr ''img-1'')
       (OpenStackInstanceType (Resource m1_small)) PNone PNone PNone PNone PNone PNone []
     = ([ServersCreate \<lparr>srv_name = PStr ''web'', srv_image = PStr ''img-1'',
           srv_flavor = PStr ''m1.small'', srv_min_count = 1, srv_max_count = 1,
           srv_availability_zone = PNone, srv_key_name = PNone,
           srv_security_groups = PNone, srv_userdata = PNone\<rparr>],
        Inr (OpenStackInstance (Resource
           \<lparr>os_id = ''srv-1'', os_name = ''web'', os_description = ''''\<rparr>)))
   \<and> create_instance example_provider (PStr ''web'') (PStr ''img-1'')
       (PStr ''m1.small'') PNone PNone PNone PNone PNone PNone []
     = ([FlavorsList,
         ServersCreate \<lparr>srv_name = PStr ''web'', srv_image = PStr ''img-1'',
           srv_flavor = PStr ''2'', srv_min_count = 1, srv_max_count = 1,
           srv_availability_zone = PNone, srv_key_name = PNone,
           srv_security_groups = PNone, srv_userdata = PNone\<rparr>],
        Inr (OpenStackInstance (Resource
           \<lparr>os_id = ''srv-1'', os_name = ''web'', os_description = ''''\<rparr>)))
   \<and> create_instance example_provider (PStr ''web'') (PStr ''img-1'')
       (PStr ''2'') PNone PNone PNone PNone PNone PNone []
     = ([FlavorsList], Inl AttributeError)"
  by (simp add: create_instance_defs svc_defs example_defs isinstance_def)

text \<open>
  C3, amended: for the image, zone and keypair of \<^verbatim>\<open>create_instance\<close>, the zone of
  \<^verbatim>\<open>create_volume\<close> and the volume of \<^verbatim>\<open>create_snapshot\<close>, the call with a domain
  object and the call with the object's bare identifier string issue the same backend
  calls and have the same outcome, all other arguments equal.
\<close>

theorem create_object_or_id_same_outcome:
  "(isinstance img C_MachineImage \<and> getattr img A_image_id = Inr (PStr image_id) \<longrightarrow>
      create_instance p name img instance_type zone keypair security_groups user_data
        block_device_mapping network_interfaces kwargs
      = create_instance p name (PStr image_id) instance_type zone keypair security_groups
          user_data block_device_mapping network_interfaces kwargs)
   \<and> (isinstance zone C_PlacementZone \<and> getattr zone A_name = Inr (PStr zone_name) \<longrightarrow>
      create_instance p name img instance_type zone keypair security_groups user_data
        block_device_mapping network_interfaces kwargs
      = create_instance p name img instance_type (PStr zone_name) keypair security_groups
          user_data block_device_mapping network_interfaces kwargs)
   \<and> (isinstance keypair C_KeyPair \<and> getattr keypair A_name = Inr (PStr keypair_name) \<longrightarrow>
      create_instance p name img instance_type zone keypair security_groups user_data
        block_device_mapping network_interfaces kwargs
      = create_instance p name img instance_type zone (PStr keypair_name) security_groups
          user_data block_device_mapping network_interfaces kwargs)
   \<and> (isinstance zone C_PlacementZone \<and> getattr zone A_name = Inr (PStr zone_name) \<longrightarrow>
      create_volume p vname vsize zone snapshot
      = create_volume p vname vsize (PStr zone_name) snapshot)
   \<and> (isinstance volume C_OpenStackVolume \<and> getattr volume A_volume_id = Inr (PStr volume_id) \<longrightarrow>
      create_snapshot p sname volume description
      = create_snapshot p sname (PStr volume_id) description)"
  using PlacementZone_not_snapshot [of zone]
  by (simp add: create_instance_def create_instance_image_id_def
      create_instance_zone_name_def create_instance_keypair_name_def
      create_volume_def create_snapshot_def isinstance_PStr svc_lift_def svc_return_def)

text \<open>
  The amended C3 at the example objects: an image, a zone, a key pair and a volume, each
  against its identifier.
\<close>

theorem create_object_or_id_same_outcome_witness:
  "isinstance example_image C_MachineImage
   \<and> getattr example_image A_image_id = Inr (PStr ''img-1'')
   \<and> create_instance example_provider (PStr ''web'') example_image (PStr ''m1.small'')
        example_zone example_keypair (PList example_security_groups) PNone PNone PNone []
      = create_instance example_provider (PStr ''web'') (PStr ''img-1'') (PStr ''m1.small'')
        example_zone example_keypair (PList example_security_groups) PNone PNone PNone []
   \<and> isinstance example_zone C_PlacementZone
   \<and> getattr example_zone A_name = Inr (PStr ''nova'')
   \<and> create_instance example_provider (PStr ''web'') example_image (PStr ''m1.small'')
        example_zone example_keypair (PList example_security_groups) PNone PNone PNone []
      = create_instance example_provider (PStr ''web'') example_image (PStr ''m1.small'')
        (PStr ''nova'') example_keypair (PList example_security_groups) PNone PNone PNone []
   \<and> isinstance example_keypair C_KeyPair
   \<and> getattr example_keypair A_name = Inr (PStr ''deploy-key'')
   \<and> create_instance example_provider (PStr ''web'') example_image (PStr ''m1.small'')
        example_zone example_keypair (PList example_security_groups) PNone PNone PNone []
      = create_instance example_provider (PStr ''web'') example_image (PStr ''m1.small'')
        example_zone (PStr ''deploy-key'') (PList example_security_groups) PNone PNone PNone []
   \<and> create_volume example_provider (PStr ''data'') (PInt 10) example_zone PNone
      = create_volume example_provider (PStr ''data'') (PInt 10) (PStr ''nova'') PNone
   \<and> isinstance example_volume C_OpenStackVolume
   \<and> getattr example_volume A_volume_id = Inr (PStr ''vol-1'')
   \<and> create_snapshot example_provider (PStr ''nightly'') example_volume PNone
      = create_snapshot example_provider (PStr ''nightly'') (PStr ''vol-1'') PNone"
proof -
  have img: "isinstance example_image C_MachineImage
             \<and> getattr example_image A_image_id = Inr (PStr ''img-1'')"
    by (simp add: example_image_def isinstance_def)
  have zone: "isinstance example_zone C_PlacementZone
              \<and> getattr example_zone A_name = Inr (PStr ''nova'')"
    by (simp add: example_zone_def isinstance_def)
  have keypair: "isinstance example_keypair C_KeyPair
                 \<and> getattr example_keypair A_name = Inr (PStr ''deploy-key'')"
    by (simp add: example_keypair_def isinstance_def)
  have volume: "isinstance example_volume C_OpenStackVolume
                \<and> getattr example_volume A_volume_id = Inr (PStr ''vol-1'')"
    by (simp add: example_volume_def isinstance_def)
  show ?thesis
    using img zone keypair volume
      create_object_or_id_same_outcome [where img = example_image and image_id = "''img-1''"
        and p = example_provider and name = "PStr ''web''"
        and instance_type = "PStr ''m1.small''" and zone = example_zone
        and zone_name = "''nova''" and keypair = example_keypair
        and keypair_name = "''deploy-key''"
        and security_groups = "PList example_security_groups" and user_data = PNone
        and block_device_mapping = PNone and network_interfaces = PNone and kwargs = "[]"
        and vname = "PStr ''data''" and vsize = "PInt 10" and snapshot = PNone
        and volume = example_volume and volume_id = "''vol-1''"
        and sname = "PStr ''nightly''" and description = PNone]
    by blast
qed


subsection \<open>A falsy record from a create call\<close>

lemma create_volume_returns_wrapper:
  assumes "create_volume p vname vsize zone snapshot = (cs, Inr vol)"
  shows "\<exists>req os_vol. cs = [VolumesCreate req] \<and> volumes_create (cinder p) req = Inr os_vol
           \<and> vol = OpenStackVolume os_vol"
  using assms unfolding create_volume_def
  apply (elim svc_bind_InrE)
  apply (drule resolve_no_call)+
  apply (simp add: backend_def svc_return_def Let_def)
  done

lemma create_snapshot_returns_wrapper:
  assumes "create_snapshot p sname volume sdescription = (cs, Inr snap)"
  shows "\<exists>req os_snap. cs = [VolumeSnapshotsCreate req]
           \<and> volume_snapshots_create (cinder p) req = Inr os_snap
           \<and> snap = OpenStackSnapshot os_snap"
  using assms unfolding create_snapshot_def
  apply (elim svc_bind_InrE)
  apply (drule resolve_no_call)+
  apply (simp add: backend_def svc_return_def Let_def)
  done

lemma SecurityGroupService_create_falsy:
  "security_groups_create (nova p) name description = Inr sg \<Longrightarrow> \<not> truthy sg \<Longrightarrow>
   SecurityGroupService_create p name description
     = ([SecurityGroupsCreate name description], Inr PNone)"
  by (simp add: SecurityGroupService_create_def svc_bind_def backend_def svc_return_def)

text \<open>
  C4, as the specification states it, fails: security-group create, \<^verbatim>\<open>create_volume\<close>
  and \<^verbatim>\<open>create_snapshot\<close> should return \<^verbatim>\<open>None\<close> when the backend create call
  returns a falsy record. In the example cloud the block-storage client returns \<^verbatim>\<open>None\<close>
  from both create calls, and the two services return a wrapper around it.
\<close>

theorem create_wraps_falsy_record:
  "\<not> truthy PNone
   \<and> create_volume example_provider (PStr ''data'') (PInt 10) (PStr ''nova'') PNone
       = ([VolumesCreate \<lparr>vol_size = PInt 10, vol_name = PStr ''data'',
                           vol_availability_zone = PStr ''nova'', vol_snapshot_id = PNone\<rparr>],
          Inr (OpenStackVolume PNone))
   \<and> create_snapshot example_provider (PStr ''nightly'') (PStr ''vol-1'') PNone
       = ([VolumeSnapshotsCreate \<lparr>snap_volume_id = PStr ''vol-1'',
                                   snap_name = PStr ''nightly'', snap_description = PNone\<rparr>],
          Inr (OpenStackSnapshot PNone))
   \<and> OpenStackVolume PNone \<noteq> PNone \<and> OpenStackSnapshot PNone \<noteq> PNone"
  by (simp add: create_volume_def create_snapshot_def svc_defs example_defs isinstance_def)

text \<open>
  C4, amended: security-group create returns \<^verbatim>\<open>None\<close> when the backend create call
  returns a falsy record. \<^verbatim>\<open>create_volume\<close> and \<^verbatim>\<open>create_snapshot\<close> make no such test:
  whenever one of them returns, it has issued exactly one backend call, the create call,
  and returns the wrapper around the record that call returned, falsy or not.
\<close>

theorem create_on_falsy_record:
  "(security_groups_create (nova p) name description = Inr sg \<and> \<not> truthy sg \<longrightarrow>
      SecurityGroupService_create p name description
        = ([SecurityGroupsCreate name description], Inr PNone))
   \<and> (create_volume p vname vsize zone snapshot = (cs, Inr vol) \<longrightarrow>
        (\<exists>req os_vol. cs = [VolumesCreate req] \<and> volumes_create (cinder p) req = Inr os_vol
           \<and> vol = OpenStackVolume os_vol))
   \<and> (create_snapshot p sname volume sdescription = (cs', Inr snap) \<longrightarrow>
        (\<exists>req os_snap. cs' = [VolumeSnapshotsCreate req]
           \<and> volume_snapshots_create (cinder p) req = Inr os_snap
           \<and> snap = OpenStackSnapshot os_snap))"
  using SecurityGroupService_create_falsy create_volume_returns_wrapper
    create_snapshot_returns_wrapper
  by blast

text \<open>
  The amended C4 in the example cloud, where the three create calls return \<^verbatim>\<open>None\<close>.
\<close>

theorem create_on_falsy_record_witness:
  "security_groups_create (nova example_provider) (PStr ''web'') (PStr ''http'') = Inr PNone
   \<and> \<not> truthy PNone
   \<and> SecurityGroupService_create example_provider (PStr ''web'') (PStr ''http'')
        = ([SecurityGroupsCreate (PStr ''web'') (PStr ''http'')], Inr PNone)
   \<and> (\<exists>req os_vol. volumes_create (cinder example_provider) req = Inr os_vol
         \<and> \<not> truthy os_vol
         \<and> create_volume example_provider (PStr ''data'') (PInt 10) (PStr ''nova'') PNone
             = ([VolumesCreate req], Inr (OpenStackVolume os_vol)))
   \<and> (\<exists>req os_snap. volume_snapshots_create (cinder example_provider) req = Inr os_snap
         \<and> \<not> truthy os_snap
         \<and> create_snapshot example_provider (PStr ''nightly'') (PStr ''vol-1'') PNone
             = ([VolumeSnapshotsCreate req], Inr (OpenStackSnapshot os_snap)))"
proof -
  have sg: "security_groups_create (nova example_provider) (PStr ''web'') (PStr ''http'')
              = Inr PNone \<and> \<not> truthy PNone"
    by (simp add: example_defs)
  have vol: "create_volume example_provider (PStr ''data'') (PInt 10) (PStr ''nova'') PNone
       = ([VolumesCreate \<lparr>vol_size = PInt 10, vol_name = PStr ''data'',
                           vol_availability_zone = PStr ''nova'', vol_snapshot_id = PNone\<rparr>],
          Inr (OpenStackVolume PNone))"
    by (simp add: create_volume_def svc_defs example_defs isinstance_def)
  have snap: "create_snapshot example_provider (PStr ''nightly'') (PStr ''vol-1'') PNone
       = ([VolumeSnapshotsCreate \<lparr>snap_volume_id = PStr ''vol-1'',
                                   snap_name = PStr ''nightly'', snap_description = PNone\<rparr>],
          Inr (OpenStackSnapshot PNone))"
    by (simp add: create_snapshot_def svc_defs example_defs isinstance_def)
  have every: "\<And>req. volumes_create (cinder example_provider) req = Inr PNone"
       "\<And>req. volume_snapshots_create (cinder example_provider) req = Inr PNone"
    by (simp_all add: example_defs)
  show ?thesis
    using sg vol snap every
      create_on_falsy_record [where p = example_provider and name = "PStr ''web''"
        and description = "PStr ''http''" and sg = PNone
        and vname = "PStr ''data''" and vsize = "PInt 10" and zone = "PStr ''nova''"
        and snapshot = PNone and sname = "PStr ''nightly''" and volume = "PStr ''vol-1''"
        and sdescription = PNone]
    by auto
qed
subsection \<open>Instance types by name\<close>

lemma next_match_none:
  "\<forall>x\<in>set xs. \<exists>n'. getattr x A_name = Inr n' \<and> n' \<noteq> n \<Longrightarrow> next_match xs n = Inr PNone"
  by (induction xs) auto

lemma next_match_first:
  "\<forall>x\<in>set pre. \<exists>n'. getattr x A_name = Inr n' \<and> n' \<noteq> n \<Longrightarrow>
   getattr it A_name = Inr n \<Longrightarrow> next_match (pre @ it # post) n = Inr it"
  by (induction pre) auto

lemma InstanceTypesService_list_Inr:
  assumes "InstanceTypesService_list p = (cs, Inr itypes)"
  shows "cs = [FlavorsList]"
    and "\<exists>fs. flavors_list (nova p) = Inr fs
           \<and> itypes = map (\<lambda>f. OpenStackInstanceType (Resource f)) fs"
  using assms
  by (auto simp add: InstanceTypesService_list_def svc_bind_def backend_def svc_return_def
      split: sum.splits)

lemma listed_type_has_name:
  "x \<in> set (map (\<lambda>f. OpenStackInstanceType (Resource f)) fs) \<Longrightarrow>
   \<exists>s. getattr x A_name = Inr (PStr s)"
  by auto

lemma find_by_name_of_list:
  "InstanceTypesService_list p = (cs, Inr itypes) \<Longrightarrow>
   find_by_name p name = (cs, next_match itypes name)"
  by (simp add: find_by_name_def svc_bind_def svc_lift_def)

lemma find_by_name_none:
  assumes "InstanceTypesService_list p = (cs, Inr itypes)"
    and "\<forall>x\<in>set itypes. getattr x A_name \<noteq> Inr (PStr n)"
  shows "find_by_name p (PStr n) = (cs, Inr PNone)"
proof -
  from assms(1) obtain fs where "itypes = map (\<lambda>f. OpenStackInstanceType (Resource f)) fs"
    using InstanceTypesService_list_Inr(2) by blast
  then have "\<forall>x\<in>set itypes. \<exists>s. getattr x A_name = Inr (PStr s)"
    using listed_type_has_name by blast
  with assms(2) have "\<forall>x\<in>set itypes. \<exists>n'. getattr x A_name = Inr n' \<and> n' \<noteq> PStr n"
    by metis
  then show ?thesis
    using next_match_none find_by_name_of_list [OF assms(1)] by simp
qed

lemma find_by_name_first:
  assumes "InstanceTypesService_list p = (cs, Inr itypes)"
    and "itypes = pre @ itype # post"
    and "getattr itype A_name = Inr (PStr n)"
    and "\<forall>x\<in>set pre. getattr x A_name \<noteq> Inr (PStr n)"
  shows "find_by_name p (PStr n) = (cs, Inr itype)"
proof -
  from assms(1) obtain fs where "itypes = map (\<lambda>f. OpenStackInstanceType (Resource f)) fs"
    using InstanceTypesService_list_Inr(2) by blast
  then have named: "\<forall>x\<in>set itypes. \<exists>s. getattr x A_name = Inr (PStr s)"
    using listed_type_has_name by blast
  have "\<forall>x\<in>set pre. \<exists>n'. getattr x A_name = Inr n' \<and> n' \<noteq> PStr n"
  proof
    fix x assume x: "x \<in> set pre"
    then have "x \<in> set itypes" using assms(2) by simp
    with named obtain s where "getattr x A_name = Inr (PStr s)" by blast
    with assms(4) x show "\<exists>n'. getattr x A_name = Inr n' \<and> n' \<noteq> PStr n" by auto
  qed
  then have "next_match (pre @ itype # post) (PStr n) = Inr itype"
    using next_match_first assms(3) by blast
  then show ?thesis
    using find_by_name_of_list [OF assms(1)] assms(2) by simp
qed

text \<open>
  C6: for every name string, \<^verbatim>\<open>find_by_name\<close> returns \<^verbatim>\<open>None\<close> when no instance type
  of \<^verbatim>\<open>list()\<close> has that name, and otherwise the first instance type in the order of
  \<^verbatim>\<open>list()\<close> whose name is the argument, whatever follows it in the listing (a second
  type of the same name included). The backend calls are those of the listing.
\<close>

theorem find_by_name_first_match:
  assumes "InstanceTypesService_list p = (cs, Inr itypes)"
  shows "((\<forall>x\<in>set itypes. getattr x A_name \<noteq> Inr (PStr n))
            \<longrightarrow> find_by_name p (PStr n) = (cs, Inr PNone))
       \<and> (\<forall>pre itype post.
            itypes = pre @ itype # post \<and> getattr itype A_name = Inr (PStr n)
            \<and> (\<forall>x\<in>set pre. getattr x A_name \<noteq> Inr (PStr n))
            \<longrightarrow> find_by_name p (PStr n) = (cs, Inr itype))"
  using find_by_name_none [OF assms] find_by_name_first [OF assms] by blast

text \<open>
  C6 in the example cloud, whose listing is \<^verbatim>\<open>m1.tiny\<close>, \<^verbatim>\<open>m1.small\<close> and a second
  \<^verbatim>\<open>m1.small\<close>: no type is named \<^verbatim>\<open>m1.huge\<close>, and \<^verbatim>\<open>m1.small\<close> finds the first of
  the two.
\<close>

theorem find_by_name_first_match_witness:
  "InstanceTypesService_list example_provider
     = ([FlavorsList],
        Inr [OpenStackInstanceType (Resource m1_tiny),
             OpenStackInstanceType (Resource m1_small),
             OpenStackInstanceType (Resource m1_small_again)])
   \<and> getattr (OpenStackInstanceType (Resource m1_tiny)) A_name = Inr (PStr ''m1.tiny'')
   \<and> getattr (OpenStackInstanceType (Resource m1_small)) A_name = Inr (PStr ''m1.small'')
   \<and> getattr (OpenStackInstanceType (Resource m1_small_again)) A_name = Inr (PStr ''m1.small'')
   \<and> find_by_name example_provider (PStr ''m1.huge'') = ([FlavorsList], Inr PNone)
   \<and> find_by_name example_provider (PStr ''m1.small'')
       = ([FlavorsList], Inr (OpenStackInstanceType (Resource m1_small)))"
proof -
  let ?tiny = "OpenStackInstanceType (Resource m1_tiny)"
  let ?small = "OpenStackInstanceType (Resource m1_small)"
  let ?again = "OpenStackInstanceType (Resource m1_small_again)"
  have listing: "InstanceTypesService_list example_provider
                   = ([FlavorsList], Inr [?tiny, ?small, ?again])"
    by (simp add: InstanceTypesService_list_def svc_defs example_provider_def
        example_nova_def)
  have names: "getattr ?tiny A_name = Inr (PStr ''m1.tiny'')"
    "getattr ?small A_name = Inr (PStr ''m1.small'')"
    "getattr ?again A_name = Inr (PStr ''m1.small'')"
    by (simp_all add: m1_tiny_def m1_small_def m1_small_again_def)
  have absent: "\<forall>x\<in>set [?tiny, ?small, ?again]. getattr x A_name \<noteq> Inr (PStr ''m1.huge'')"
    using names by simp
  have split: "[?tiny, ?small, ?again] = [?tiny] @ ?small # [?again]"
    and before: "\<forall>x\<in>set [?tiny]. getattr x A_name \<noteq> Inr (PStr ''m1.small'')"
    using names by simp_all
  have huge: "find_by_name example_provider (PStr ''m1.huge'') = ([FlavorsList], Inr PNone)"
    using find_by_name_first_match [OF listing, of "''m1.huge''"] absent by blast
  have small: "find_by_name example_provider (PStr ''m1.small'') = ([FlavorsList], Inr ?small)"
    using find_by_name_first_match [OF listing, of "''m1.small''"] split before names(2)
    by blast
  from listing names huge small show ?thesis by simp
qed


subsection \<open>Provisioning\<close>

lemma getattr_raises_AttributeError: "getattr x a = Inl e \<Longrightarrow> e = AttributeError"
  by (induction x arbitrary: a) (auto split: attr.splits)

lemma zone_name_total: "\<exists>zone_name. create_instance_zone_name zone = Inr zone_name"
  by (cases zone) (simp_all add: create_instance_zone_name_def isinstance_def)

lemma keypair_name_total: "\<exists>keypair_name. create_instance_keypair_name keypair = Inr keypair_name"
  by (cases keypair) (simp_all add: create_instance_keypair_name_def isinstance_def)

lemma instance_size_calls:
  "set (fst (create_instance_instance_size p instance_type)) \<subseteq> {FlavorsList}"
  by (simp add: create_instance_instance_size_def find_by_name_def
      InstanceTypesService_list_def svc_defs split: sum.splits)

text \<open>When the five assignments succeed, one creation call follows the lookup's calls.\<close>

lemma create_instance_resolved:
  assumes "create_instance_image_id img = Inr image_id"
    and "create_instance_instance_size p instance_type = (cs, Inr instance_size)"
    and "create_instance_zone_name zone = Inr zone_name"
    and "create_instance_keypair_name keypair = Inr keypair_name"
    and "create_instance_security_groups_list security_groups = Inr sg_names"
  shows "fst (create_instance p name img instance_type zone keypair security_groups user_data
            block_device_mapping network_interfaces kwargs)
         = cs @ [ServersCreate \<lparr>srv_name = name, srv_image = image_id,
                   srv_flavor = instance_size, srv_min_count = 1, srv_max_count = 1,
                   srv_availability_zone = zone_name, srv_key_name = keypair_name,
                   srv_security_groups = sg_names, srv_userdata = user_data\<rparr>]"
  using assms
  by (simp add: create_instance_def svc_defs Let_def split: sum.splits)

text \<open>A failing assignment raises before the creation call.\<close>

lemma create_instance_image_id_raises:
  "create_instance_image_id img = Inl e \<Longrightarrow>
   create_instance p name img instance_type zone keypair security_groups user_data
     block_device_mapping network_interfaces kwargs = ([], Inl e)"
  by (simp add: create_instance_def svc_defs)

lemma create_instance_instance_size_raises:
  "create_instance_image_id img = Inr image_id \<Longrightarrow>
   create_instance_instance_size p instance_type = (cs, Inl e) \<Longrightarrow>
   create_instance p name img instance_type zone keypair security_groups user_data
     block_device_mapping network_interfaces kwargs = (cs, Inl e)"
  by (simp add: create_instance_def svc_defs)

lemma create_instance_security_groups_raises:
  "create_instance_image_id img = Inr image_id \<Longrightarrow>
   create_instance_instance_size p instance_type = (cs, Inr instance_size) \<Longrightarrow>
   create_instance_security_groups_list security_groups = Inl e \<Longrightarrow>
   create_instance p name img instance_type zone keypair security_groups user_data
     block_device_mapping network_interfaces kwargs = (cs, Inl e)"
  using zone_name_total [of zone] keypair_name_total [of keypair]
  by (auto simp add: create_instance_def svc_defs)

text \<open>Every creation call in the trace carries the normalised security groups.\<close>

lemma create_instance_calls:
  assumes "ServersCreate req \<in> set (fst (create_instance p name img instance_type zone
             keypair security_groups user_data block_device_mapping network_interfaces kwargs))"
  shows "create_instance_security_groups_list security_groups = Inr (srv_security_groups req)"
proof (cases "create_instance_image_id img")
  case (Inl e)
  with assms show ?thesis by (simp add: create_instance_image_id_raises)
next
  case image: (Inr image_id)
  obtain cs r where size: "create_instance_instance_size p instance_type = (cs, r)"
    by (cases "create_instance_instance_size p instance_type")
  have cs: "ServersCreate req \<notin> set cs"
    using instance_size_calls [of p instance_type] size by auto
  show ?thesis
  proof (cases r)
    case (Inl e)
    with assms image size cs show ?thesis
      by (simp add: create_instance_instance_size_raises)
  next
    case (Inr instance_size)
    show ?thesis
    proof (cases "create_instance_security_groups_list security_groups")
      case (Inl e)
      with assms image size Inr cs show ?thesis
        by (simp add: create_instance_security_groups_raises)
    next
      case groups: (Inr sg_names)
      obtain zone_name keypair_name where
        "create_instance_zone_name zone = Inr zone_name"
        "create_instance_keypair_name keypair = Inr keypair_name"
        using zone_name_total keypair_name_total by blast
      with assms image size Inr groups cs show ?thesis
        by (auto simp add: create_instance_resolved)
    qed
  qed
qed

lemma attr_of_each_list_all2:
  "list_all2 (\<lambda>x v. getattr x a = Inr v) xs vs \<Longrightarrow> attr_of_each a xs = Inr vs"
  by (induction xs vs rule: list_all2_induct) simp_all

lemma security_group_names:
  "\<forall>sg\<in>set sgs. isinstance sg C_SecurityGroup \<Longrightarrow>
   \<exists>names. list_all2 (\<lambda>sg n. getattr sg A_name = Inr n) sgs names"
proof (induction sgs)
  case Nil
  then show ?case by simp
next
  case (Cons sg sgs)
  then obtain names where "list_all2 (\<lambda>sg n. getattr sg A_name = Inr n) sgs names"
    by auto
  moreover from Cons.prems obtain n where "getattr sg A_name = Inr n"
    by (cases sg) (simp_all add: isinstance_def)
  ultimately have "list_all2 (\<lambda>sg n. getattr sg A_name = Inr n) (sg # sgs) (n # names)"
    by simp
  then show ?case by blast
qed

lemma security_groups_list_names:
  assumes "sgs \<noteq> []" and "\<forall>sg\<in>set sgs. isinstance sg C_SecurityGroup"
    and "list_all2 (\<lambda>sg n. getattr sg A_name = Inr n) sgs names"
  shows "create_instance_security_groups_list (PList sgs) = Inr (PList names)"
proof -
  from assms(1) obtain sg0 rest where sgs: "sgs = sg0 # rest" by (cases sgs) auto
  with assms(2) have "isinstance sg0 C_SecurityGroup" by simp
  moreover have "attr_of_each A_name sgs = Inr names"
    using assms(3) by (rule attr_of_each_list_all2)
  ultimately show ?thesis
    unfolding create_instance_security_groups_list_def using sgs by simp
qed

lemma security_groups_list_falsy:
  "\<not> truthy security_groups \<Longrightarrow> create_instance_security_groups_list security_groups = Inr PNone"
  by (simp add: create_instance_security_groups_list_def)

text \<open>
  C7: for a non-empty list of \<^verbatim>\<open>SecurityGroup\<close> objects, every server-creation call
  that \<^verbatim>\<open>create_instance\<close> issues carries the list of the groups' names, read
  element by element; the call is issued, after the calls of the instance-type lookup, as
  soon as the image and the instance type resolve. When \<^verbatim>\<open>security_groups\<close> is left
  out or falsy, the call carries \<^verbatim>\<open>None\<close>.
\<close>

theorem create_instance_security_groups_normalised:
  "(sgs \<noteq> [] \<and> (\<forall>sg\<in>set sgs. isinstance sg C_SecurityGroup) \<longrightarrow>
      (\<exists>names. list_all2 (\<lambda>sg n. getattr sg A_name = Inr n) sgs names
         \<and> (\<forall>req. ServersCreate req \<in> set (fst (create_instance p name img instance_type zone
                keypair (PList sgs) user_data block_device_mapping network_interfaces kwargs))
              \<longrightarrow> srv_security_groups req = PList names)
         \<and> (create_instance_image_id img = Inr image_id
              \<and> create_instance_instance_size p instance_type = (cs, Inr instance_size)
              \<longrightarrow> (\<exists>req. fst (create_instance p name img instance_type zone keypair (PList sgs)
                           user_data block_device_mapping network_interfaces kwargs)
                         = cs @ [ServersCreate req]
                       \<and> srv_security_groups req = PList names))))
   \<and> (\<not> truthy security_groups \<longrightarrow>
      (\<forall>req. ServersCreate req \<in> set (fst (create_instance p name img instance_type zone
                keypair security_groups user_data block_device_mapping network_interfaces kwargs))
              \<longrightarrow> srv_security_groups req = PNone)
      \<and> (create_instance_image_id img = Inr image_id
              \<and> create_instance_instance_size p instance_type = (cs, Inr instance_size)
              \<longrightarrow> (\<exists>req. fst (create_instance p name img instance_type zone keypair
                           security_groups user_data block_device_mapping network_interfaces
                           kwargs)
                         = cs @ [ServersCreate req]
                       \<and> srv_security_groups req = PNone)))"
proof -
  obtain zone_name keypair_name where
    zk: "create_instance_zone_name zone = Inr zone_name"
      "create_instance_keypair_name keypair = Inr keypair_name"
    using zone_name_total keypair_name_total by blast
  have issued: "\<exists>req. fst (create_instance p name img instance_type zone keypair sg_arg
                           user_data block_device_mapping network_interfaces kwargs)
                         = cs @ [ServersCreate req]
                       \<and> srv_security_groups req = sgl"
    if "create_instance_security_groups_list sg_arg = Inr sgl"
      and "create_instance_image_id img = Inr image_id"
      and "create_instance_instance_size p instance_type = (cs, Inr instance_size)"
    for sg_arg sgl
    using create_instance_resolved [OF that(2) that(3) zk that(1)] by simp
  have payload: "srv_security_groups req = sgl"
    if "create_instance_security_groups_list sg_arg = Inr sgl"
      and "ServersCreate req \<in> set (fst (create_instance p name img instance_type zone
                keypair sg_arg user_data block_device_mapping network_interfaces kwargs))"
    for sg_arg sgl req
    using create_instance_calls [OF that(2)] that(1) by simp
  have groups: "\<exists>names. list_all2 (\<lambda>sg n. getattr sg A_name = Inr n) sgs names
         \<and> create_instance_security_groups_list (PList sgs) = Inr (PList names)"
    if "sgs \<noteq> []" and "\<forall>sg\<in>set sgs. isinstance sg C_SecurityGroup"
    using security_group_names [OF that(2)] security_groups_list_names [OF that] by blast
  show ?thesis
  proof (intro conjI impI)
    assume "sgs \<noteq> [] \<and> (\<forall>sg\<in>set sgs. isinstance sg C_SecurityGroup)"
    then obtain names where names: "list_all2 (\<lambda>sg n. getattr sg A_name = Inr n) sgs names"
      and res: "create_instance_security_groups_list (PList sgs) = Inr (PList names)"
      using groups by blast
    show "\<exists>names. list_all2 (\<lambda>sg n. getattr sg A_name = Inr n) sgs names
         \<and> (\<forall>req. ServersCreate req \<in> set (fst (create_instance p name img instance_type zone
                keypair (PList sgs) user_data block_device_mapping network_interfaces kwargs))
              \<longrightarrow> srv_security_groups req = PList names)
         \<and> (create_instance_image_id img = Inr image_id
              \<and> create_instance_instance_size p instance_type = (cs, Inr instance_size)
              \<longrightarrow> (\<exists>req. fst (create_instance p name img instance_type zone keypair (PList sgs)
                           user_data block_device_mapping network_interfaces kwargs)
                         = cs @ [ServersCreate req]
                       \<and> srv_security_groups req = PList names))"
      using names payload [OF res] issued [OF res] by blast
  next
    assume "\<not> truthy security_groups"
    then have res: "create_instance_security_groups_list security_groups = Inr PNone"
      by (rule security_groups_list_falsy)
    show "\<forall>req. ServersCreate req \<in> set (fst (create_instance p name img instance_type zone
                keypair security_groups user_data block_device_mapping network_interfaces kwargs))
              \<longrightarrow> srv_security_groups req = PNone"
      using payload [OF res] by blast
  next
    assume "\<not> truthy security_groups"
      and "create_instance_image_id img = Inr image_id
              \<and> create_instance_instance_size p instance_type = (cs, Inr instance_size)"
    then show "\<exists>req. fst (create_instance p name img instance_type zone keypair
                           security_groups user_data block_device_mapping network_interfaces
                           kwargs)
                         = cs @ [ServersCreate req]
                       \<and> srv_security_groups req = PNone"
      using issued security_groups_list_falsy by blast
  qed
qed


text \<open>
  C7 in the example cloud, with the groups \<^verbatim>\<open>default\<close> and \<^verbatim>\<open>web\<close> and with no
  group.
\<close>

theorem create_instance_security_groups_normalised_witness:
  "example_security_groups \<noteq> []
   \<and> isinstance (example_security_groups ! 0) C_SecurityGroup
   \<and> isinstance (example_security_groups ! 1) C_SecurityGroup
   \<and> length example_security_groups = 2
   \<and> \<not> truthy PNone
   \<and> create_instance_image_id (PStr ''img-1'') = Inr (PStr ''img-1'')
   \<and> create_instance_instance_size example_provider (PStr ''m1.small'')
       = ([FlavorsList], Inr (PStr ''2''))
   \<and> (\<exists>req. fst (create_instance example_provider (PStr ''web'') (PStr ''img-1'')
                   (PStr ''m1.small'') PNone PNone (PList example_security_groups)
                   PNone PNone PNone [])
               = [FlavorsList, ServersCreate req]
             \<and> srv_security_groups req = PList [PStr ''default'', PStr ''web''])
   \<and> (\<exists>req. fst (create_instance example_provider (PStr ''web'') (PStr ''img-1'')
                   (PStr ''m1.small'') PNone PNone PNone PNone PNone PNone [])
               = [FlavorsList, ServersCreate req]
             \<and> srv_security_groups req = PNone)"
proof -
  have groups: "example_security_groups \<noteq> []"
    "isinstance (example_security_groups ! 0) C_SecurityGroup"
    "isinstance (example_security_groups ! 1) C_SecurityGroup"
    "length example_security_groups = 2"
    by (simp_all add: example_security_groups_def isinstance_def)
  have all_groups: "\<forall>sg\<in>set example_security_groups. isinstance sg C_SecurityGroup"
    by (simp add: example_security_groups_def isinstance_def)
  have names: "names = [PStr ''default'', PStr ''web'']"
    if "list_all2 (\<lambda>sg n. getattr sg A_name = Inr n) example_security_groups names"
    for names
    using that by (auto simp add: example_security_groups_def list_all2_Cons1)
  have image: "create_instance_image_id (PStr ''img-1'') = Inr (PStr ''img-1'')"
    by (simp add: create_instance_image_id_def isinstance_def)
  have size: "create_instance_instance_size example_provider (PStr ''m1.small'')
                = ([FlavorsList], Inr (PStr ''2''))"
    by (simp add: create_instance_instance_size_def find_by_name_def
        InstanceTypesService_list_def svc_defs example_defs isinstance_def)
  have falsy: "\<not> truthy PNone" by simp
  note inst = create_instance_security_groups_normalised
    [where sgs = example_security_groups and p = example_provider
      and name = "PStr ''web''" and img = "PStr ''img-1''"
      and instance_type = "PStr ''m1.small''" and zone = PNone and keypair = PNone
      and user_data = PNone and block_device_mapping = PNone
      and network_interfaces = PNone and kwargs = "[]" and image_id = "PStr ''img-1''"
      and cs = "[FlavorsList]" and instance_size = "PStr ''2''"
      and security_groups = PNone]
  from inst groups(1) all_groups image size names
  have with_groups: "\<exists>req. fst (create_instance example_provider (PStr ''web'') (PStr ''img-1'')
                   (PStr ''m1.small'') PNone PNone (PList example_security_groups)
                   PNone PNone PNone [])
               = [FlavorsList, ServersCreate req]
             \<and> srv_security_groups req = PList [PStr ''default'', PStr ''web'']"
    by (metis append_Cons append_Nil)
  from inst falsy image size
  have without: "\<exists>req. fst (create_instance example_provider (PStr ''web'') (PStr ''img-1'')
                   (PStr ''m1.small'') PNone PNone PNone PNone PNone PNone [])
               = [FlavorsList, ServersCreate req]
             \<and> srv_security_groups req = PNone"
    by (metis append_Cons append_Nil)
  from groups falsy image size with_groups without show ?thesis by blast
qed

text \<open>
  C10: when \<^verbatim>\<open>instance_type\<close> is a string that is the name of no instance type of the
  listing, the name lookup returns \<^verbatim>\<open>None\<close>, reading \<^verbatim>\<open>.id\<close> on it raises
  \<^verbatim>\<open>AttributeError\<close>, and \<^verbatim>\<open>create_instance\<close> raises it without a server-creation
  call: the only backend call is the flavor listing of the lookup (none at all when
  reading the image's identifier has already raised).
\<close>

theorem create_instance_unknown_type_name:
  assumes "InstanceTypesService_list p = (cs, Inr itypes)"
    and "\<forall>x\<in>set itypes. getattr x A_name \<noteq> Inr (PStr s)"
  shows "find_by_name p (PStr s) = ([FlavorsList], Inr PNone)
       \<and> getattr PNone A_id = Inl AttributeError
       \<and> create_instance_instance_size p (PStr s) = ([FlavorsList], Inl AttributeError)
       \<and> snd (create_instance p name img (PStr s) zone keypair security_groups user_data
                block_device_mapping network_interfaces kwargs) = Inl AttributeError
       \<and> (\<forall>req. ServersCreate req \<notin> set (fst (create_instance p name img (PStr s) zone
                keypair security_groups user_data block_device_mapping network_interfaces
                kwargs)))
       \<and> (create_instance_image_id img = Inr image_id \<longrightarrow>
            create_instance p name img (PStr s) zone keypair security_groups user_data
              block_device_mapping network_interfaces kwargs
            = ([FlavorsList], Inl AttributeError))"
proof -
  have cs: "cs = [FlavorsList]"
    using InstanceTypesService_list_Inr(1) [OF assms(1)] .
  have lookup: "find_by_name p (PStr s) = ([FlavorsList], Inr PNone)"
    using find_by_name_none [OF assms] cs by simp
  then have size: "create_instance_instance_size p (PStr s) = ([FlavorsList], Inl AttributeError)"
    by (simp add: create_instance_instance_size_def isinstance_PStr svc_bind_def svc_lift_def)
  let ?R = "create_instance p name img (PStr s) zone keypair security_groups user_data
              block_device_mapping network_interfaces kwargs"
  have resolved: "?R = ([FlavorsList], Inl AttributeError)"
    if "create_instance_image_id img = Inr i" for i
    using create_instance_instance_size_raises [OF that size] .
  have raised: "?R = ([], Inl AttributeError)" if "create_instance_image_id img = Inl e" for e
  proof -
    from that have "e = AttributeError"
      by (auto simp add: create_instance_image_id_def split: if_splits
          dest: getattr_raises_AttributeError)
    with that show ?thesis by (simp add: create_instance_image_id_raises)
  qed
  have "?R = ([FlavorsList], Inl AttributeError) \<or> ?R = ([], Inl AttributeError)"
    using resolved raised by (cases "create_instance_image_id img") auto
  then have "snd ?R = Inl AttributeError" and "\<forall>req. ServersCreate req \<notin> set (fst ?R)"
    by auto
  with lookup size resolved show ?thesis by simp
qed

text \<open>
  C10 in the example cloud: no flavor is named \<^verbatim>\<open>m1.huge\<close>, and the failing branch
  of the lookup is reached from \<^verbatim>\<open>create_instance\<close>.
\<close>

theorem create_instance_unknown_type_name_witness:
  "InstanceTypesService_list example_provider
     = ([FlavorsList],
        Inr [OpenStackInstanceType (Resource m1_tiny),
             OpenStackInstanceType (Resource m1_small),
             OpenStackInstanceType (Resource m1_small_again)])
   \<and> getattr (OpenStackInstanceType (Resource m1_tiny)) A_name \<noteq> Inr (PStr ''m1.huge'')
   \<and> getattr (OpenStackInstanceType (Resource m1_small)) A_name \<noteq> Inr (PStr ''m1.huge'')
   \<and> getattr (OpenStackInstanceType (Resource m1_small_again)) A_name
       \<noteq> Inr (PStr ''m1.huge'')
   \<and> create_instance_image_id example_image = Inr (PStr ''img-1'')
   \<and> find_by_name example_provider (PStr ''m1.huge'') = ([FlavorsList], Inr PNone)
   \<and> create_instance example_provider (PStr ''web'') example_image (PStr ''m1.huge'')
        example_zone example_keypair (PList example_security_groups) PNone PNone PNone []
      = ([FlavorsList], Inl AttributeError)"
proof -
  let ?tiny = "OpenStackInstanceType (Resource m1_tiny)"
  let ?small = "OpenStackInstanceType (Resource m1_small)"
  let ?again = "OpenStackInstanceType (Resource m1_small_again)"
  have listing: "InstanceTypesService_list example_provider
                   = ([FlavorsList], Inr [?tiny, ?small, ?again])"
    by (simp add: InstanceTypesService_list_def svc_defs example_provider_def
        example_nova_def)
  have names: "getattr ?tiny A_name \<noteq> Inr (PStr ''m1.huge'')"
    "getattr ?small A_name \<noteq> Inr (PStr ''m1.huge'')"
    "getattr ?again A_name \<noteq> Inr (PStr ''m1.huge'')"
    by (simp_all add: m1_tiny_def m1_small_def m1_small_again_def)
  then have absent: "\<forall>x\<in>set [?tiny, ?small, ?again]. getattr x A_name \<noteq> Inr (PStr ''m1.huge'')"
    by simp
  have image: "create_instance_image_id example_image = Inr (PStr ''img-1'')"
    by (simp add: create_instance_image_id_def example_image_def isinstance_def)
  from listing names image
    create_instance_unknown_type_name [OF listing absent, where img = example_image
      and image_id = "PStr ''img-1''" and name = "PStr ''web''" and zone = example_zone
      and keypair = example_keypair and security_groups = "PList example_security_groups"
      and user_data = PNone and block_device_mapping = PNone and network_interfaces = PNone
      and kwargs = "[]"]
  show ?thesis by blast
qed

subsection \<open>Unsupported searches\<close>

text \<open>
  C5: for every input, \<^verbatim>\<open>find_image\<close>, \<^verbatim>\<open>find_volume\<close> and \<^verbatim>\<open>find_snapshot\<close> raise
  \<^verbatim>\<open>NotImplementedError\<close>; they return no value and issue no backend call.
\<close>

theorem find_unsupported:
  "find_image p name =
     ([], Inl (NotImplementedError ''find_image not implemented by this provider''))
   \<and> find_volume p name =
     ([], Inl (NotImplementedError ''find_volume not implemented by this provider''))
   \<and> find_snapshot p name =
     ([], Inl (NotImplementedError ''find_volume not implemented by this provider''))"
  by (simp add: find_image_def find_volume_def find_snapshot_def svc_raise_def)

subsection \<open>Regions\<close>

text \<open>
  C8: every call to \<^verbatim>\<open>list_regions\<close> issues exactly one backend call, the
  availability-zone listing with \<^verbatim>\<open>detailed=False\<close>; the detailed listing is never
  requested.
\<close>

theorem list_regions_not_detailed:
  "fst (list_regions p) = [AvailabilityZonesList False]
   \<and> AvailabilityZonesList True \<notin> set (fst (list_regions p))"
  by (simp add: list_regions_def svc_bind_def backend_def svc_return_def split: sum.splits)

subsection \<open>Key-pair generation\<close>

text \<open>
  C9: \<^verbatim>\<open>generate_key_pair\<close> takes no input and returns the pair of the private and the
  public key bytes. It asks the library for an RSA key of 2048 bits (public exponent
  65537), serialises the private key as PEM, PKCS8, unencrypted, and the public key of
  that same key in the OpenSSH encoding and format.
\<close>

theorem generate_key_pair_parameters:
  "fst (generate_key_pair lib)
     = [GeneratePrivateKey 65537 2048,
        PrivateBytes Encoding_PEM PrivateFormat_PKCS8 NoEncryption,
        PublicKey,
        PublicBytes Encoding_OpenSSH PublicFormat_OpenSSH]
   \<and> snd (generate_key_pair lib)
     = (private_bytes lib (rsa_generate_private_key lib 65537 2048)
          Encoding_PEM PrivateFormat_PKCS8 NoEncryption,
        public_bytes lib (public_key lib (rsa_generate_private_key lib 65537 2048))
          Encoding_OpenSSH PublicFormat_OpenSSH)"
  by (simp add: generate_key_pair_def Let_def)

end
